theory Spec2Isabelle
  imports Main
begin

section \<open>Python string operations used by EDITH.py\<close>

text \<open>
  Strings are lists of 8-bit characters. The case mappings and the whitespace class are the
  ASCII part of Python's \<open>str.lower\<close>, \<open>str.upper\<close> and \<open>str.isspace\<close>; every literal
  of the program that is compared or searched for is ASCII.
\<close>

definition lower_char :: "char \<Rightarrow> char" where
  "lower_char c =
     (case map_of (zip ''ABCDEFGHIJKLMNOPQRSTUVWXYZ'' ''abcdefghijklmnopqrstuvwxyz'') c of
        Some d \<Rightarrow> d
      | None \<Rightarrow> c)"

definition upper_char :: "char \<Rightarrow> char" where
  "upper_char c =
     (case map_of (zip ''abcdefghijklmnopqrstuvwxyz'' ''ABCDEFGHIJKLMNOPQRSTUVWXYZ'') c of
        Some d \<Rightarrow> d
      | None \<Rightarrow> c)"

definition lower :: "string \<Rightarrow> string" where
  "lower s = map lower_char s"

definition upper :: "string \<Rightarrow> string" where
  "upper s = map upper_char s"

text \<open>\<open>s.capitalize()\<close>: first character upper-cased, the rest lower-cased.\<close>

definition capitalize :: "string \<Rightarrow> string" where
  "capitalize s = (case s of [] \<Rightarrow> [] | c # cs \<Rightarrow> upper_char c # lower cs)"

definition isspace :: "char \<Rightarrow> bool" where
  "isspace c =
     (c \<in> set [CHR '' '', CHR 0x09, CHR 0x0A, CHR 0x0B, CHR 0x0C, CHR 0x0D,
                CHR 0x1C, CHR 0x1D, CHR 0x1E, CHR 0x1F])"

definition strip :: "string \<Rightarrow> string" where
  "strip s = rev (dropWhile isspace (rev (dropWhile isspace s)))"

text \<open>\<open>s.startswith(p)\<close>.\<close>

fun startswith :: "string \<Rightarrow> string \<Rightarrow> bool" where
  "startswith s [] = True"
| "startswith [] (p # ps) = False"
| "startswith (c # cs) (p # ps) = (c = p \<and> startswith cs ps)"

text \<open>\<open>q in s\<close> for strings: \<open>q\<close> occurs in \<open>s\<close> as a contiguous substring.\<close>

fun contains :: "string \<Rightarrow> string \<Rightarrow> bool" where
  "contains [] q = (q = [])"
| "contains (c # cs) q = (startswith (c # cs) q \<or> contains cs q)"

text \<open>
  \<open>s.split(sep, 1)\<close> for a non-empty separator: the text before the first occurrence of
  \<open>sep\<close> and the text after it, or the whole string alone when \<open>sep\<close> does not occur.
\<close>

fun partition_at :: "string \<Rightarrow> string \<Rightarrow> (string \<times> string) option" where
  "partition_at sep [] = None"
| "partition_at sep (c # cs) =
     (if startswith (c # cs) sep then Some ([], drop (length sep) (c # cs))
      else (case partition_at sep cs of
              None \<Rightarrow> None
            | Some (a, b) \<Rightarrow> Some (c # a, b)))"

definition split_once :: "string \<Rightarrow> string \<Rightarrow> string list" where
  "split_once s sep = (case partition_at sep s of None \<Rightarrow> [s] | Some (a, b) \<Rightarrow> [a, b])"

text \<open>\<open>s.replace(' ', '+')\<close>.\<close>

definition replace_space_plus :: "string \<Rightarrow> string" where
  "replace_space_plus s = map (\<lambda>c. if c = CHR '' '' then CHR ''+'' else c) s"

text \<open>\<open>str(n)\<close> for a natural number.\<close>

fun str_nat :: "nat \<Rightarrow> string" where
  "str_nat n =
     (if n < 10 then [''0123456789'' ! n]
      else str_nat (n div 10) @ [''0123456789'' ! (n mod 10)])"

declare str_nat.simps [simp del]


section \<open>Configuration constants\<close>

definition USER_PROFILE_name :: string where
  "USER_PROFILE_name = ''Devansh Prabhakar''"

definition USER_PROFILE_interests :: "string list" where
  "USER_PROFILE_interests = [''coding'', ''space exploration'', ''cybersecurity'']"

definition USER_PROFILE_status_level :: string where
  "USER_PROFILE_status_level = ''Optimal''"

definition OPENWEATHERMAP_API_KEY :: string where
  "OPENWEATHERMAP_API_KEY = ''YOUR_OPENWEATHERMAP_API_KEY_HERE''"

text \<open>The nested dictionary \<open>PROGRAMS\<close>: operating system, then application name.\<close>

definition PROGRAMS :: "string \<rightharpoonup> (string \<rightharpoonup> string)" where
  "PROGRAMS = map_of
     [(''windows'', map_of [(''notepad'', ''notepad.exe''), (''calculator'', ''calc.exe''),
                            (''paint'', ''mspaint.exe''), (''cmd'', ''cmd.exe''),
                            (''explorer'', ''explorer.exe'')]),
      (''darwin'', map_of [(''safari'', ''Safari''), (''notes'', ''Notes''),
                           (''calculator'', ''Calculator''), (''terminal'', ''Terminal'')]),
      (''linux'', map_of [(''terminal'', ''gnome-terminal''),
                          (''calculator'', ''gnome-calculator''), (''browser'', ''firefox'')])]"


section \<open>The world outside the program\<close>

text \<open>
  Everything the program does to its surroundings is recorded, in order, as an event.
  \<open>Spoke\<close> is one call of \<open>edith_speak\<close> (console line and text-to-speech), \<open>Printed\<close> one
  call of \<open>print\<close>, \<open>Browser_open\<close> one call of \<open>webbrowser.open\<close>, \<open>Popen_args\<close> and
  \<open>Popen_shell\<close> the two forms of \<open>subprocess.Popen\<close>, \<open>Generate\<close> one call of
  \<open>model.generate\<close> with the token sequence it was given, \<open>Http_get\<close> one call of
  \<open>requests.get\<close>.
\<close>

type_synonym token = nat

datatype event =
    Spoke string
  | Printed string
  | Browser_open string
  | Popen_args "string list"
  | Popen_shell string
  | Generate "token list"
  | Http_get string

text \<open>What \<open>requests.get(url).json()\<close> and the reads of its fields come to.\<close>

datatype weather_reply =
    Request_exception
  | Other_exception string
  | Cod_not_200 "string option"
  | Weather_ok string string string "string option"

text \<open>
  The answers of the surroundings. Each answer is indexed by the number of answers already
  given in the session (the field \<open>tick\<close> of the state below), so that two calls with the
  same arguments may be answered differently. An exception is the message \<open>str(e)\<close> it
  carries.
\<close>

record env =
  platform_system :: string
  now_hour :: "nat \<Rightarrow> nat"
  now_strftime :: "nat \<Rightarrow> string \<Rightarrow> string"
  randint_99_100 :: "nat \<Rightarrow> bool"
  random_choice :: "nat \<Rightarrow> nat"
  tokenizer_encode :: "string \<Rightarrow> token list"
  tokenizer_decode :: "token list \<Rightarrow> string"
  tokenizer_eos_token :: string
  model_generate :: "nat \<Rightarrow> token list \<Rightarrow> string + token list"
  popen_raises :: "nat \<Rightarrow> string option"
  requests_get :: "nat \<Rightarrow> string \<Rightarrow> weather_reply"

text \<open>
  The mutable state of the module: the instance \<open>edith_brain\<close> of \<open>EdithBrain\<close> (whether
  \<open>_load_model\<close> set \<open>tokenizer\<close> and \<open>model\<close>, and \<open>chat_history_ids\<close>), the global list
  \<open>reminders\<close> of records (task, timestamp), the events so far and the answer counter.
\<close>

record state =
  tokenizer_loaded :: bool
  model_loaded :: bool
  chat_history_ids :: "token list option"
  reminders :: "(string \<times> string) list"
  trace :: "event list"
  tick :: nat

definition edith_speak :: "string \<Rightarrow> state \<Rightarrow> state" where
  "edith_speak text st = st\<lparr>trace := trace st @ [Spoke text]\<rparr>"

definition print :: "string \<Rightarrow> state \<Rightarrow> state" where
  "print text st = st\<lparr>trace := trace st @ [Printed text]\<rparr>"

definition emit :: "event \<Rightarrow> state \<Rightarrow> state" where
  "emit e st = st\<lparr>trace := trace st @ [e]\<rparr>"

definition next_tick :: "state \<Rightarrow> state" where
  "next_tick st = st\<lparr>tick := Suc (tick st)\<rparr>"


section \<open>EdithBrain\<close>

definition is_ready :: "state \<Rightarrow> bool" where
  "is_ready st = (model_loaded st \<and> tokenizer_loaded st)"

definition OFFLINE_MESSAGE :: string where
  "OFFLINE_MESSAGE =
     ''My advanced conversational matrix is offline. I cannot process the query.''"

text \<open>
  \<open>EdithBrain.think\<close>. \<open>bot_input_ids\<close> is the second statement after the readiness
  test: the history, when there is one, followed by the encoded input. The result of
  \<open>think\<close> is \<open>Inl e\<close> when \<open>model.generate\<close> raises \<open>e\<close>, which leaves the method
  before the assignment to \<open>self.chat_history_ids\<close>.
\<close>

definition bot_input_ids :: "env \<Rightarrow> string \<Rightarrow> state \<Rightarrow> token list" where
  "bot_input_ids E user_input st =
     (let new_user_input_ids = tokenizer_encode E (user_input @ tokenizer_eos_token E)
      in case chat_history_ids st of
           Some h \<Rightarrow> h @ new_user_input_ids
         | None \<Rightarrow> new_user_input_ids)"

definition think :: "env \<Rightarrow> string \<Rightarrow> state \<Rightarrow> (string + string) \<times> state" where
  "think E user_input st =
     (if \<not> is_ready st then (Inr OFFLINE_MESSAGE, st)
      else
        let ids = bot_input_ids E user_input st;
            st1 = next_tick (emit (Generate ids) st)
        in case model_generate E (tick st) ids of
             Inl e \<Rightarrow> (Inl e, st1)
           | Inr out \<Rightarrow>
               (Inr (tokenizer_decode E (drop (length ids) out)),
                st1\<lparr>chat_history_ids := Some out\<rparr>))"


section \<open>The response resolver: edith_analyze\<close>

definition any_in :: "string list \<Rightarrow> string \<Rightarrow> bool" where
  "any_in qs s = list_ex (\<lambda>q. contains s q) qs"

definition REPLY_STATUS :: string where
  "REPLY_STATUS = ''My core systems are operating within defined parameters. I am fully engaged and ready for high-level information processing.''"

definition REPLY_RISK :: string where
  "REPLY_RISK = ''Risk assessment initiated. While no immediate threats are detected, I recommend reviewing best practices for **'' @ USER_PROFILE_interests ! 2 @ ''** to maintain network integrity.''"

definition REPLY_FRIEND :: string where
  "REPLY_FRIEND = ''That is easy. My friend and primary collaborator is **'' @ USER_PROFILE_name @ ''**.''"

definition REPLY_MAKER :: string where
  "REPLY_MAKER = ''My designation originates from my primary user and programmer, **'' @ USER_PROFILE_name @ ''**.''"

definition REPLY_INSPIRE :: string where
  "REPLY_INSPIRE = ''Your current trajectory is optimal. Maintain focus on complex problem-solving. Success is the logical result of persistent effort.''"

definition INFERENCE_ERROR :: "string \<Rightarrow> string" where
  "INFERENCE_ERROR e = ''A critical error occurred during AI inference: '' @ e"

text \<open>
  The body of \<open>edith_analyze\<close> up to the final \<open>edith_speak\<close>: the \<open>if\<close>/\<open>elif\<close> chain over
  the lower-cased input, and in the last branch the call of \<open>think\<close> inside
  \<open>try\<close>/\<open>except Exception\<close>.
\<close>

definition analyze_response :: "env \<Rightarrow> string \<Rightarrow> state \<Rightarrow> string \<times> state" where
  "analyze_response E user_input st =
     (let input_lower = lower user_input in
      if any_in [''how are you'', ''status report'', ''condition''] input_lower
        then (REPLY_STATUS, st)
      else if any_in [''security threat'', ''vulnerability'', ''risk assessment''] input_lower
        then (REPLY_RISK, st)
      else if any_in [''who is your friend'', ''who's your friend''] input_lower
        then (REPLY_FRIEND, st)
      else if any_in [''who created you'', ''your maker''] input_lower
        then (REPLY_MAKER, st)
      else if any_in [''inspire me'', ''motivate'', ''positive''] input_lower
        then (REPLY_INSPIRE, st)
      else
        (case think E user_input st of
           (Inr response, st1) \<Rightarrow> (response, st1)
         | (Inl e, st1) \<Rightarrow>
             (INFERENCE_ERROR e,
              print (''Error in edith_analyze: '' @ e) st1)))"

definition edith_analyze :: "env \<Rightarrow> string \<Rightarrow> state \<Rightarrow> state" where
  "edith_analyze E user_input st =
     (case analyze_response E user_input st of (response, st1) \<Rightarrow> edith_speak response st1)"


section \<open>Handlers\<close>

definition greet_user :: "env \<Rightarrow> state \<Rightarrow> state" where
  "greet_user E st =
     (let hour = now_hour E (tick st);
          greeting = (if 5 \<le> hour \<and> hour < 12 then ''Good morning''
                      else if 12 \<le> hour \<and> hour < 18 then ''Good afternoon''
                      else ''Good evening'')
      in edith_speak
           (''**System Boot Sequence Complete.** '' @ greeting @ '', '' @ USER_PROFILE_name
              @ ''. Current status is '' @ USER_PROFILE_status_level
              @ ''. How may I prioritize your tasks?'')
           (next_tick st))"

definition tell_date_time :: "env \<Rightarrow> state \<Rightarrow> state" where
  "tell_date_time E st =
     (let date_str = now_strftime E (tick st) ''%A, %d %B %Y'';
          time_str = now_strftime E (tick st) ''%I:%M %p''
      in edith_speak
           (''The current date is **'' @ date_str @ ''**, and the time is **'' @ time_str
              @ ''**.'')
           (next_tick st))"

definition open_website :: "string \<Rightarrow> state \<Rightarrow> state" where
  "open_website url st =
     (let st1 = edith_speak (''Executing web traversal to **'' @ url @ ''**.'') st;
          url1 = (if \<not> startswith url ''http'' then ''https://'' @ url else url)
      in emit (Browser_open url1) st1)"

text \<open>
  \<open>open_application\<close>. \<open>if not command_to_run\<close> holds for a missing entry and for an
  empty one. The call of \<open>subprocess.Popen\<close> is an event whether or not it raises.
\<close>

definition NO_CONFIGURATION :: "string \<Rightarrow> string" where
  "NO_CONFIGURATION app_name =
     ''I don't have a configuration for the application '' @ [CHR 0x27] @ app_name
       @ [CHR 0x27] @ ''.''"

definition open_application :: "env \<Rightarrow> string \<Rightarrow> state \<Rightarrow> state" where
  "open_application E app_name st =
     (let app_name_processed = strip (lower app_name);
          os_name = lower (platform_system E);
          os_programs = (case PROGRAMS os_name of Some m \<Rightarrow> m | None \<Rightarrow> Map.empty)
      in case os_programs app_name_processed of
           None \<Rightarrow> edith_speak (NO_CONFIGURATION app_name) st
         | Some command_to_run \<Rightarrow>
             if command_to_run = [] then edith_speak (NO_CONFIGURATION app_name) st
             else
               (let st1 = edith_speak (''Attempting to interface with local application: **''
                                         @ app_name @ ''**.'') st;
                    st2 = next_tick
                            (emit (if os_name = ''darwin''
                                   then Popen_args [''open'', ''-a'', command_to_run]
                                   else Popen_shell command_to_run) st1)
                in (case popen_raises E (tick st1) of
                      None \<Rightarrow> edith_speak (''Affirmative. Opening '' @ app_name @ ''.'') st2
                    | Some e \<Rightarrow>
                        edith_speak (''A critical error occurred while opening '' @ app_name
                                       @ '': '' @ e) st2)))"

definition open_target :: "env \<Rightarrow> string \<Rightarrow> state \<Rightarrow> state" where
  "open_target E target st =
     (if contains target ''.'' then open_website target st
      else open_application E target st)"

definition search_web :: "string \<Rightarrow> state \<Rightarrow> state" where
  "search_web query st =
     emit (Browser_open (''https://www.google.com/search?q='' @ replace_space_plus query))
       (edith_speak (''Querying global information network for: **'' @ query @ ''**.'') st)"

definition prompts :: "string list" where
  "prompts =
     [''Hypothesis: The integration of quantum computing will reduce current processing time metrics by a factor of 10^9 within the next fiscal cycle. Key challenges involve qubit stability and environmental decoherence.'',
      ''Analytical Report: Observed data suggests a correlation between modular coding architecture and a 42% reduction in post-deployment critical failures. Standardization is mandatory for scaling.'',
      ''System Log Analysis: External API latency spike detected at 02:45 UTC, attributed to a transient network bottleneck on the European gateway. No data loss occurred, but redundancy protocols were activated.'']"

definition ai_text_generation :: "env \<Rightarrow> state \<Rightarrow> state" where
  "ai_text_generation E st =
     (let generated = prompts ! (random_choice E (tick st) mod length prompts)
      in edith_speak (''**Analytical Synthesis Complete.** Displaying generated report: ''
                        @ generated)
           (next_tick st))"


section \<open>Reminders\<close>

definition MISSING_TASK_MESSAGE :: string where
  "MISSING_TASK_MESSAGE = ''The task parameter is missing. Please state the command clearly, for example: 'set task review code'.''"

text \<open>
  \<open>set_reminder\<close>. \<open>task\<close> is \<open>None\<close> when the text has no \<open>task\<close> in it; \<open>if task\<close>
  is false for \<open>None\<close> and for the empty string.
\<close>

definition set_reminder :: "env \<Rightarrow> string \<Rightarrow> state \<Rightarrow> state" where
  "set_reminder E command_line st =
     (let parts = split_once command_line ''task'';
          task = (case parts of _ # p1 # _ \<Rightarrow> Some (strip p1) | _ \<Rightarrow> None)
      in case task of
           None \<Rightarrow> edith_speak MISSING_TASK_MESSAGE st
         | Some t \<Rightarrow>
             if t = [] then edith_speak MISSING_TASK_MESSAGE st
             else
               let timestamp = now_strftime E (tick st) ''%Y-%m-%d %H:%M'';
                   st1 = next_tick st;
                   st2 = st1\<lparr>reminders := reminders st1 @ [(t, timestamp)]\<rparr>
               in edith_speak (''Task **'' @ [CHR 0x27] @ t @ [CHR 0x27]
                                 @ ''** successfully logged at '' @ timestamp
                                 @ ''. Priority set to standard.'') st2)"

fun print_reminders :: "nat \<Rightarrow> (string \<times> string) list \<Rightarrow> state \<Rightarrow> state" where
  "print_reminders i [] st = st"
| "print_reminders i (r # rs) st =
     print_reminders (i + 1) rs
       (print (''  '' @ str_nat (i + 1) @ '': Logged '' @ snd r @ '' - **'' @ fst r @ ''**'') st)"

definition view_reminders :: "state \<Rightarrow> state" where
  "view_reminders st =
     (if reminders st = [] then
        edith_speak ''No active tasks are currently logged in the memory matrix.'' st
      else print_reminders 0 (reminders st) (edith_speak ''Displaying active task log:'' st))"

definition clear_reminders :: "state \<Rightarrow> state" where
  "clear_reminders st =
     (if reminders st = [] then edith_speak ''Task log is empty. No action required.'' st
      else edith_speak ''All active tasks have been successfully purged from the log. Memory status: Clear.''
             (st\<lparr>reminders := []\<rparr>))"


section \<open>Weather\<close>

definition get_weather :: "env \<Rightarrow> string \<Rightarrow> state \<Rightarrow> state" where
  "get_weather E location_input st =
     (if OPENWEATHERMAP_API_KEY = ''YOUR_OPENWEATHERMAP_API_KEY_HERE'' then
        edith_speak ''Weather module is currently uncalibrated. API key is missing. Please update the configuration file.'' st
      else
        let location_query = replace_space_plus (strip location_input);
            url = ''http://api.openweathermap.org/data/2.5/weather?q='' @ location_query
                    @ ''&appid='' @ OPENWEATHERMAP_API_KEY @ ''&units=metric'';
            st1 = next_tick (emit (Http_get url) st)
        in case requests_get E (tick st) url of
             Cod_not_200 message \<Rightarrow>
               edith_speak (''Error accessing environmental data for **'' @ location_input
                              @ ''**: ''
                              @ (case message of Some m \<Rightarrow> m
                                 | None \<Rightarrow> ''Location not found or invalid.'')) st1
           | Weather_ok temp humidity description city \<Rightarrow>
               edith_speak (''Current environmental conditions for **''
                              @ (case city of Some c \<Rightarrow> c | None \<Rightarrow> location_input)
                              @ ''**: Temperature is '' @ temp @ [CHR 0xC2, CHR 0xB0]
                              @ ''C. Humidity is at '' @ humidity
                              @ ''%. Observed condition: '' @ capitalize description @ ''.'') st1
           | Request_exception \<Rightarrow>
               edith_speak ''Network connection failure. Unable to access external environmental data service.'' st1
           | Other_exception e \<Rightarrow>
               edith_speak ''An unhandled exception occurred in the weather module.''
                 (print (''Weather module error: '' @ e) st1))"


section \<open>Input\<close>

text \<open>
  One answer of the input device to \<open>listen_for_command\<close>. \<open>VOICE_ENABLED\<close> is fixed when
  the module is loaded; the kind of the answer says which branch of \<open>if not VOICE_ENABLED\<close>
  is the one that runs: \<open>Typed\<close> is an answer of \<open>input\<close> (the line, or \<open>None\<close> for
  \<open>EOFError\<close> or \<open>KeyboardInterrupt\<close>), \<open>Listened\<close> an answer of the microphone and the
  recognition service. The prompt that \<open>input\<close> writes is recorded as printed.
\<close>

datatype listened =
    Wait_timeout
  | Recognized string
  | Unknown_value
  | Request_error string
  | Keyboard_interrupt

datatype heard = Typed "string option" | Listened listened

text \<open>\<open>Inl ()\<close> is a \<open>KeyboardInterrupt\<close> that leaves \<open>listen_for_command\<close>.\<close>

definition listen_for_command :: "heard \<Rightarrow> state \<Rightarrow> (unit + string) \<times> state" where
  "listen_for_command h st =
     (case h of
        Typed answer \<Rightarrow>
          (let st1 = print ([CHR 0x0A] @ ''['' @ USER_PROFILE_name @ ''] > '') st
           in case answer of
                Some command \<Rightarrow> (Inr (strip (lower command)), st1)
              | None \<Rightarrow> (Inr ''exit'', st1))
      | Listened answer \<Rightarrow>
          (let st1 = print ([CHR 0x0A] @ ''['' @ USER_PROFILE_name @ ''] (Listening...)'') st
           in case answer of
                Keyboard_interrupt \<Rightarrow> (Inl (), st1)
              | Wait_timeout \<Rightarrow> (Inr [], print ''No speech detected.'' st1)
              | Recognized command \<Rightarrow>
                  (Inr (lower command),
                   print (''You said: '' @ command) (print ''E.D.I.T.H. processing audio...'' st1))
              | Unknown_value \<Rightarrow>
                  (Inr [],
                   print ''E.D.I.T.H. could not understand the audio. Please speak clearly.''
                     (print ''E.D.I.T.H. processing audio...'' st1))
              | Request_error e \<Rightarrow>
                  (Inr [],
                   edith_speak (''A network error occurred with the speech recognition service; '' @ e)
                     (print ''E.D.I.T.H. processing audio...'' st1))))"


section \<open>The command map\<close>

definition help_message :: string where
  "help_message =
     ''Available Commands for E.D.I.T.H.:'' @ [CHR 0x0A]
     @ ''  - **time**: Retrieve current date and time.'' @ [CHR 0x0A]
     @ ''  - **status**: Get E.D.I.T.H.'s current operational status.'' @ [CHR 0x0A]
     @ ''  - **analyze [query]**: Initiate a core analytical conversation (e.g., 'analyze how are you').'' @ [CHR 0x0A]
     @ ''  - **generate report**: Create a complex, simulated analytical report.'' @ [CHR 0x0A]
     @ ''  - **weather [city]**: Fetch environmental data (e.g., 'weather London').'' @ [CHR 0x0A]
     @ ''  - **search [query]**: Search the web for a given query.'' @ [CHR 0x0A]
     @ ''  - **open [app/website]**: Opens an application or website (e.g., 'open notepad', 'open google.com').'' @ [CHR 0x0A]
     @ ''  - **set task [task]**: Log a new task (e.g., 'set task buy milk').'' @ [CHR 0x0A]
     @ ''  - **view tasks**: Display the list of active tasks.'' @ [CHR 0x0A]
     @ ''  - **clear tasks**: Purge all tasks from the log.'' @ [CHR 0x0A]
     @ ''  - **help**: Display this command index.'' @ [CHR 0x0A]
     @ ''  - **exit**: Shut down E.D.I.T.H.'s console.''"

definition display_help :: "state \<Rightarrow> state" where
  "display_help st =
     print (replicate 70 CHR ''='')
       (print help_message (print ([CHR 0x0A] @ replicate 70 CHR ''='') st))"

text \<open>
  The values of \<open>COMMANDS\<close> are Python function objects, and the loop inspects them:
  \<open>asyncio.iscoroutinefunction\<close>, \<open>__name__\<close> and \<open>__code__.co_argcount\<close>. A call returns
  \<open>None\<close> or, for \<open>edith_analyze\<close>, a coroutine object: a computation that has not run
  yet and runs when it is awaited.
\<close>

datatype pyvalue = PyNone | PyCoroutine "state \<Rightarrow> state"

datatype code = Nullary "state \<Rightarrow> pyvalue \<times> state" | Unary "string \<Rightarrow> state \<Rightarrow> pyvalue \<times> state"

record pyfunc =
  is_coroutine_function :: bool
  dunder_name :: string
  dunder_code :: code

definition co_argcount :: "pyfunc \<Rightarrow> nat" where
  "co_argcount f = (case dunder_code f of Nullary _ \<Rightarrow> 0 | Unary _ \<Rightarrow> 1)"

definition iscoroutine :: "pyvalue \<Rightarrow> bool" where
  "iscoroutine v = (case v of PyCoroutine _ \<Rightarrow> True | PyNone \<Rightarrow> False)"

text \<open>\<open>f(*args)\<close>; \<open>Inl\<close> is the \<open>TypeError\<close> of a call with the wrong number of arguments.\<close>

definition call :: "pyfunc \<Rightarrow> string list \<Rightarrow> state \<Rightarrow> (string + pyvalue) \<times> state" where
  "call f args st =
     (case (dunder_code f, args) of
        (Nullary b, []) \<Rightarrow> (case b st of (v, st1) \<Rightarrow> (Inr v, st1))
      | (Unary b, [a]) \<Rightarrow> (case b a st of (v, st1) \<Rightarrow> (Inr v, st1))
      | _ \<Rightarrow> (Inl ''TypeError: wrong number of positional arguments'', st))"

text \<open>\<open>await v\<close>; awaiting \<open>None\<close> raises \<open>TypeError\<close>.\<close>

definition await :: "pyvalue \<Rightarrow> state \<Rightarrow> (string + unit) \<times> state" where
  "await v st =
     (case v of
        PyCoroutine c \<Rightarrow> (Inr (), c st)
      | PyNone \<Rightarrow> (Inl ''object NoneType can't be used in 'await' expression'', st))"

text \<open>The three ways a value of \<open>COMMANDS\<close> is written in the source.\<close>

definition def0 :: "string \<Rightarrow> (state \<Rightarrow> state) \<Rightarrow> pyfunc" where
  "def0 n body =
     \<lparr>is_coroutine_function = False, dunder_name = n,
      dunder_code = Nullary (\<lambda>st. (PyNone, body st))\<rparr>"

definition def1 :: "string \<Rightarrow> (string \<Rightarrow> state \<Rightarrow> state) \<Rightarrow> pyfunc" where
  "def1 n body =
     \<lparr>is_coroutine_function = False, dunder_name = n,
      dunder_code = Unary (\<lambda>a st. (PyNone, body a st))\<rparr>"

definition async_def1 :: "string \<Rightarrow> (string \<Rightarrow> state \<Rightarrow> state) \<Rightarrow> pyfunc" where
  "async_def1 n body =
     \<lparr>is_coroutine_function = True, dunder_name = n,
      dunder_code = Unary (\<lambda>a st. (PyCoroutine (body a), st))\<rparr>"

definition lambda0 :: "(state \<Rightarrow> pyvalue \<times> state) \<Rightarrow> pyfunc" where
  "lambda0 body =
     \<lparr>is_coroutine_function = False, dunder_name = ''<lambda>'', dunder_code = Nullary body\<rparr>"

definition lambda1 :: "(string \<Rightarrow> state \<Rightarrow> pyvalue \<times> state) \<Rightarrow> pyfunc" where
  "lambda1 body =
     \<lparr>is_coroutine_function = False, dunder_name = ''<lambda>'', dunder_code = Unary body\<rparr>"

definition status_message :: "env \<Rightarrow> nat \<Rightarrow> string" where
  "status_message E t =
     ''Current operational status: **'' @ USER_PROFILE_status_level
       @ ''**. All modules are functioning with ''
       @ str_nat (if randint_99_100 E t then 100 else 99) @ ''% efficiency.''"

definition GOODBYE :: string where
  "GOODBYE = ''System shutdown initialized. Standby mode activated. Goodbye, ''
               @ USER_PROFILE_name"

definition COMMANDS :: "env \<Rightarrow> (string \<times> pyfunc) list" where
  "COMMANDS E =
     [(''help'', def0 ''display_help'' display_help),
      (''time'', def0 ''tell_date_time'' (tell_date_time E)),
      (''status'', lambda0 (\<lambda>st. (PyNone, edith_speak (status_message E (tick st)) (next_tick st)))),
      (''generate'', lambda1 (\<lambda>arg st.
          if arg = ''report'' then (PyNone, ai_text_generation E st)
          else (PyCoroutine (edith_analyze E (''generate '' @ arg)), st))),
      (''view'', lambda1 (\<lambda>arg st.
          if arg = ''tasks'' then (PyNone, view_reminders st)
          else (PyCoroutine (edith_analyze E (''view '' @ arg)), st))),
      (''clear'', lambda1 (\<lambda>arg st.
          if arg = ''tasks'' then (PyNone, clear_reminders st)
          else (PyCoroutine (edith_analyze E (''clear '' @ arg)), st))),
      (''analyze'', async_def1 ''edith_analyze'' (edith_analyze E)),
      (''weather'', def1 ''get_weather'' (get_weather E)),
      (''search'', def1 ''search_web'' search_web),
      (''open'', def1 ''open_target'' (open_target E)),
      (''set'', lambda1 (\<lambda>arg st.
          if startswith arg ''task'' then (PyNone, set_reminder E (''set '' @ arg) st)
          else (PyCoroutine (edith_analyze E (''set '' @ arg)), st))),
      (''exit'', lambda0 (\<lambda>st. (PyNone, edith_speak GOODBYE st))),
      (''quit'', lambda0 (\<lambda>st. (PyNone, edith_speak GOODBYE st))),
      (''shutdown'', lambda0 (\<lambda>st. (PyNone, edith_speak GOODBYE st)))]"


section \<open>The main loop: start_edith_cli\<close>

text \<open>
  The statements under \<open>if action in COMMANDS\<close> up to the test for the terminal names. In
  the two \<open><lambda>\<close> branches the conditional expression
  \<open>await f(x) if asyncio.iscoroutine(f(x)) else f(x)\<close> calls \<open>f\<close> once for its condition
  and once more in the branch it selects.
\<close>

definition discard :: "(string + pyvalue) \<times> state \<Rightarrow> (string + unit) \<times> state" where
  "discard r = (case r of (Inl e, st) \<Rightarrow> (Inl e, st) | (Inr v, st) \<Rightarrow> (Inr (), st))"

definition invoke :: "pyfunc \<Rightarrow> string \<Rightarrow> state \<Rightarrow> (string + unit) \<times> state" where
  "invoke command_func argument st =
     (if is_coroutine_function command_func then
        (case call command_func [argument] st of
           (Inl e, st1) \<Rightarrow> (Inl e, st1)
         | (Inr v, st1) \<Rightarrow> await v st1)
      else if dunder_name command_func = ''<lambda>'' then
        (if co_argcount command_func > 0 then
           (case call command_func [argument] st of
              (Inl e, st1) \<Rightarrow> (Inl e, st1)
            | (Inr v1, st1) \<Rightarrow>
                if iscoroutine v1 then
                  (case call command_func [argument] st1 of
                     (Inl e, st2) \<Rightarrow> (Inl e, st2)
                   | (Inr v2, st2) \<Rightarrow> await v2 st2)
                else discard (call command_func [argument] st1))
         else
           (case call command_func [] st of
              (Inl e, st1) \<Rightarrow> (Inl e, st1)
            | (Inr v1, st1) \<Rightarrow>
                if iscoroutine v1 then
                  (case call command_func [] st1 of
                     (Inl e, st2) \<Rightarrow> (Inl e, st2)
                   | (Inr v2, st2) \<Rightarrow> await v2 st2)
                else discard (call command_func [] st1)))
      else if co_argcount command_func > 0 then discard (call command_func [argument] st)
      else discard (call command_func [] st))"

datatype control = Continue | Break

text \<open>
  The statements of the \<open>try\<close> block after \<open>listen_for_command\<close>; \<open>Inl e\<close> is an exception
  that reaches \<open>except Exception\<close>.
\<close>

definition try_block :: "env \<Rightarrow> string \<Rightarrow> state \<Rightarrow> (string + control) \<times> state" where
  "try_block E command_line st =
     (if command_line = [] then (Inr Continue, st)
      else
        case split_once command_line '' '' of
          [] \<Rightarrow> (Inl ''list index out of range'', st)
        | action # rest \<Rightarrow>
            (let argument = (case rest of [] \<Rightarrow> [] | a # _ \<Rightarrow> a)
             in (case map_of (COMMANDS E) action of
                   Some command_func \<Rightarrow>
                     (case invoke command_func argument st of
                        (Inl e, st1) \<Rightarrow> (Inl e, st1)
                      | (Inr _, st1) \<Rightarrow>
                          (if action \<in> set [''exit'', ''quit'', ''shutdown'']
                           then (Inr Break, st1) else (Inr Continue, st1)))
                 | None \<Rightarrow> (Inr Continue, edith_analyze E command_line st))))"

text \<open>One pass of the \<open>while True\<close> body for a command line already obtained.\<close>

definition cli_step :: "env \<Rightarrow> string \<Rightarrow> state \<Rightarrow> control \<times> state" where
  "cli_step E command_line st =
     (case try_block E command_line st of
        (Inr c, st1) \<Rightarrow> (c, st1)
      | (Inl e, st1) \<Rightarrow>
          (Break,
           edith_speak ''Critical system failure. Contact support.''
             (print (''An unhandled critical error occurred: '' @ e) st1)))"

text \<open>
  The loop, run against the answers the input device gives. It ends by \<open>break\<close>
  (\<open>Broke\<close>), by \<open>sys.exit(0)\<close> (\<open>Sys_exit\<close>), or is still waiting for input when the
  answers are used up (\<open>Awaiting_input\<close>). The third component is the answers not asked for.
\<close>

datatype ending = Broke | Sys_exit | Awaiting_input

fun cli_loop :: "env \<Rightarrow> state \<Rightarrow> heard list \<Rightarrow> ending \<times> state \<times> heard list" where
  "cli_loop E st [] = (Awaiting_input, st, [])"
| "cli_loop E st (h # hs) =
     (case listen_for_command h st of
        (Inl _, st1) \<Rightarrow>
          (Sys_exit,
           edith_speak ''User interrupt detected. System going to standby mode.'' st1, hs)
      | (Inr command_line, st1) \<Rightarrow>
          (case cli_step E command_line st1 of
             (Continue, st2) \<Rightarrow> cli_loop E st2 hs
           | (Break, st2) \<Rightarrow> (Broke, st2, hs)))"

definition start_edith_cli :: "env \<Rightarrow> state \<Rightarrow> heard list \<Rightarrow> ending \<times> state \<times> heard list" where
  "start_edith_cli E st hs = cli_loop E (greet_user E st) hs"


section \<open>The specification's vocabulary\<close>

text \<open>
  The specification speaks of the first token of a line and of the remainder after it (the
  argument, empty when there is no space), of a fixed priority list of
  resolution rules of which the first that matches wins, and of a per-system table of
  applications. These definitions say that in its words; the lemmas below relate them to
  the definitions taken from the source.
\<close>

definition first_token :: "string \<Rightarrow> string" where
  "first_token s = takeWhile (\<lambda>c. c \<noteq> CHR '' '') s"

definition argument_of :: "string \<Rightarrow> string" where
  "argument_of s =
     (if CHR '' '' \<in> set s then tl (dropWhile (\<lambda>c. c \<noteq> CHR '' '') s) else [])"

definition registered :: "env \<Rightarrow> string \<Rightarrow> bool" where
  "registered E n = (n \<in> fst ` set (COMMANDS E))"

definition RULES :: "(string list \<times> string) list" where
  "RULES =
     [([''how are you'', ''status report'', ''condition''], REPLY_STATUS),
      ([''security threat'', ''vulnerability'', ''risk assessment''], REPLY_RISK),
      ([''who is your friend'', ''who's your friend''], REPLY_FRIEND),
      ([''who created you'', ''your maker''], REPLY_MAKER),
      ([''inspire me'', ''motivate'', ''positive''], REPLY_INSPIRE)]"

definition rule_matches :: "string \<Rightarrow> string list \<times> string \<Rightarrow> bool" where
  "rule_matches user_input r = any_in (fst r) (lower user_input)"

definition first_rule :: "string \<Rightarrow> (string list \<times> string) option" where
  "first_rule user_input = find (rule_matches user_input) RULES"

definition lookup_program :: "env \<Rightarrow> string \<Rightarrow> string option" where
  "lookup_program E app_name =
     (case PROGRAMS (lower (platform_system E)) of
        None \<Rightarrow> None
      | Some table \<Rightarrow> table (strip (lower app_name)))"

definition earliest_match :: "string \<Rightarrow> nat \<Rightarrow> bool" where
  "earliest_match user_input k =
     (k < length RULES \<and> rule_matches user_input (RULES ! k)
      \<and> (\<forall>m<k. \<not> rule_matches user_input (RULES ! m)))"


section \<open>Sample surroundings and states\<close>

definition env0 :: env where
  "env0 =
     \<lparr>platform_system = ''Linux'',
      now_hour = (\<lambda>t. 9),
      now_strftime = (\<lambda>t fmt. ''2024-05-01 09:00''),
      randint_99_100 = (\<lambda>t. True),
      random_choice = (\<lambda>t. 0),
      tokenizer_encode = (\<lambda>s. [length s]),
      tokenizer_decode = (\<lambda>ts. ''Hello there.''),
      tokenizer_eos_token = ''<|endoftext|>'',
      model_generate = (\<lambda>t ids. Inr (ids @ [7, 8, 9])),
      popen_raises = (\<lambda>t. None),
      requests_get = (\<lambda>t url. Request_exception)\<rparr>"

definition env_failing :: env where
  "env_failing = env0\<lparr>model_generate := (\<lambda>t ids. Inl ''CUDA out of memory'')\<rparr>"

definition st0 :: state where
  "st0 =
     \<lparr>tokenizer_loaded = True, model_loaded = True, chat_history_ids = None,
      reminders = [], trace = [], tick = 0\<rparr>"

definition st_offline :: state where
  "st_offline = st0\<lparr>tokenizer_loaded := False, model_loaded := False\<rparr>"


section \<open>Splitting a line and looking up its action\<close>

lemma partition_at_space:
  "partition_at '' '' s =
     (if CHR '' '' \<in> set s
      then Some (takeWhile (\<lambda>c. c \<noteq> CHR '' '') s, tl (dropWhile (\<lambda>c. c \<noteq> CHR '' '') s))
      else None)"
  by (induction s) auto

lemma takeWhile_no_space:
  "CHR '' '' \<notin> set s \<Longrightarrow> takeWhile (\<lambda>c. c \<noteq> CHR '' '') s = s"
  by (induction s) auto

text \<open>
  \<open>parts[0]\<close> of \<open>command_line.split(" ", 1)\<close> is the first token of the line, and
  \<open>parts[1]\<close>, when there is one, the remainder after the first space.
\<close>

lemma split_once_space:
  "split_once s '' '' =
     (if CHR '' '' \<in> set s
      then [first_token s, argument_of s]
      else [first_token s])"
  by (simp add: split_once_def partition_at_space first_token_def argument_of_def
                takeWhile_no_space)

lemma registered_iff: "registered E n \<longleftrightarrow> map_of (COMMANDS E) n \<noteq> None"
  by (simp add: registered_def map_of_eq_None_iff)

lemma try_block_unregistered:
  assumes "command_line \<noteq> []" and "\<not> registered E (first_token command_line)"
  shows "try_block E command_line st = (Inr Continue, edith_analyze E command_line st)"
  using assms by (auto simp: try_block_def split_once_space registered_iff)

text \<open>
  A non-empty line whose first token is a key of \<open>COMMANDS\<close> is dispatched to the value
  bound to that key, with the remainder as argument; \<open>edith_analyze\<close> is not called on the
  line by the loop itself.
\<close>

lemma try_block_registered:
  assumes "command_line \<noteq> []"
      and "map_of (COMMANDS E) (first_token command_line) = Some command_func"
  shows "try_block E command_line st =
           (case invoke command_func (argument_of command_line) st of
              (Inl e, st1) \<Rightarrow> (Inl e, st1)
            | (Inr _, st1) \<Rightarrow>
                (if first_token command_line \<in> {''exit'', ''quit'', ''shutdown''}
                 then (Inr Break, st1) else (Inr Continue, st1)))"
  using assms by (auto simp: try_block_def split_once_space argument_of_def split: prod.splits)


section \<open>Effects on the fields of the state\<close>

lemma trace_effects:
  "trace (edith_speak t st) = trace st @ [Spoke t]"
  "trace (print t st) = trace st @ [Printed t]"
  "trace (emit ev st) = trace st @ [ev]"
  "trace (next_tick st) = trace st"
  by (simp_all add: edith_speak_def print_def emit_def next_tick_def)

lemma tick_effects:
  "tick (edith_speak t st) = tick st"
  "tick (print t st) = tick st"
  "tick (emit ev st) = tick st"
  "tick (next_tick st) = Suc (tick st)"
  by (simp_all add: edith_speak_def print_def emit_def next_tick_def)

lemma reminders_effects:
  "reminders (edith_speak t st) = reminders st"
  "reminders (print t st) = reminders st"
  "reminders (emit ev st) = reminders st"
  "reminders (next_tick st) = reminders st"
  by (simp_all add: edith_speak_def print_def emit_def next_tick_def)

lemma chat_history_ids_effects:
  "chat_history_ids (edith_speak t st) = chat_history_ids st"
  "chat_history_ids (print t st) = chat_history_ids st"
  "chat_history_ids (emit ev st) = chat_history_ids st"
  "chat_history_ids (next_tick st) = chat_history_ids st"
  by (simp_all add: edith_speak_def print_def emit_def next_tick_def)


section \<open>Calling the values of the command map\<close>

text \<open>
  A function defined with \<open>def\<close> runs once. A \<open><lambda>\<close> is called twice: when its
  first call returns \<open>None\<close> its body has run twice when the dispatch is over; when its
  first call returns a coroutine, that coroutine is dropped and the one of the second call
  is awaited.
\<close>

lemma invoke_def0:
  assumes "n \<noteq> ''<lambda>''"
  shows "invoke (def0 n f) argument st = (Inr (), f st)"
  using assms by (simp add: invoke_def def0_def co_argcount_def call_def discard_def)

lemma invoke_def1:
  assumes "n \<noteq> ''<lambda>''"
  shows "invoke (def1 n f) argument st = (Inr (), f argument st)"
  using assms by (simp add: invoke_def def1_def co_argcount_def call_def discard_def)

lemma invoke_async_def1:
  "invoke (async_def1 n f) argument st = (Inr (), f argument st)"
  by (simp add: invoke_def async_def1_def call_def await_def)

lemma invoke_lambda0_sync:
  "invoke (lambda0 (\<lambda>st. (PyNone, g st))) argument st = (Inr (), g (g st))"
  by (simp add: invoke_def lambda0_def co_argcount_def call_def iscoroutine_def discard_def)

lemma invoke_lambda1:
  "invoke (lambda1 b) argument st =
     (case b argument st of
        (v1, st1) \<Rightarrow>
          (case b argument st1 of
             (v2, st2) \<Rightarrow> if iscoroutine v1 then await v2 st2 else (Inr (), st2)))"
  by (simp add: invoke_def lambda1_def co_argcount_def call_def discard_def split: prod.splits)

lemma cli_step_terminal:
  assumes "first_token command_line \<in> {''exit'', ''quit'', ''shutdown''}"
  shows "cli_step E command_line st = (Break, edith_speak GOODBYE (edith_speak GOODBYE st))"
proof -
  have ne: "command_line \<noteq> []"
    using assms by (auto simp: first_token_def)
  have look: "map_of (COMMANDS E) (first_token command_line)
                = Some (lambda0 (\<lambda>st. (PyNone, edith_speak GOODBYE st)))"
    using assms by (auto simp: COMMANDS_def)
  show ?thesis
    using assms ne look
    by (auto simp: cli_step_def try_block_def split_once_space invoke_lambda0_sync)
qed


section \<open>The chain of rules is a first-match search\<close>

lemma first_rule_Some:
  assumes "first_rule u = Some r"
  shows "analyze_response E u st = (snd r, st)"
  using assms
  by (auto simp: first_rule_def RULES_def rule_matches_def analyze_response_def Let_def
           split: if_splits)

lemma first_rule_None:
  assumes "first_rule u = None"
  shows "analyze_response E u st =
           (case think E u st of
              (Inr response, st1) \<Rightarrow> (response, st1)
            | (Inl e, st1) \<Rightarrow> (INFERENCE_ERROR e, print (''Error in edith_analyze: '' @ e) st1))"
  using assms
  by (auto simp: first_rule_def RULES_def rule_matches_def analyze_response_def Let_def
           split: if_splits)

lemma earliest_match_first_rule:
  assumes "earliest_match u k"
  shows "first_rule u = Some (RULES ! k)"
  using assms unfolding earliest_match_def first_rule_def find_Some_iff by blast

lemma match_has_earliest:
  assumes "i < length RULES" and "rule_matches u (RULES ! i)"
  shows "\<exists>k\<le>i. earliest_match u k"
proof -
  define k where "k = (LEAST n. rule_matches u (RULES ! n))"
  have m: "rule_matches u (RULES ! k)"
    unfolding k_def using assms(2) by (rule LeastI)
  have le: "k \<le> i"
    unfolding k_def using assms(2) by (rule Least_le)
  have "\<forall>m<k. \<not> rule_matches u (RULES ! m)"
    unfolding k_def using not_less_Least by blast
  with m le assms(1) show ?thesis
    unfolding earliest_match_def by auto
qed

lemma replies_distinct: "distinct (map snd RULES)"
  by (simp add: RULES_def REPLY_STATUS_def REPLY_RISK_def REPLY_FRIEND_def REPLY_MAKER_def
                REPLY_INSPIRE_def)

lemma length_RULES: "length RULES = 5"
  by (simp add: RULES_def)

lemma failed_generation_think:
  assumes "is_ready st" and "model_generate E (tick st) (bot_input_ids E u st) = Inl e"
  shows "think E u st = (Inl e, next_tick (emit (Generate (bot_input_ids E u st)) st))"
  using assms by (simp add: think_def Let_def)

lemma offline_differs: "OFFLINE_MESSAGE \<noteq> INFERENCE_ERROR e"
  by (simp add: OFFLINE_MESSAGE_def INFERENCE_ERROR_def)


section \<open>The opener\<close>

lemma contains_char: "contains s [c] = (c \<in> set s)"
  by (induction s) auto

lemma PROGRAMS_nonempty:
  assumes "PROGRAMS os = Some table" and "table a = Some cmd"
  shows "cmd \<noteq> []"
  using assms by (auto simp: PROGRAMS_def split: if_splits)

lemma open_application_lookup:
  "open_application E app_name st =
     (case lookup_program E app_name of
        None \<Rightarrow> edith_speak (NO_CONFIGURATION app_name) st
      | Some cmd \<Rightarrow>
          (let st2 = next_tick
                       (emit (if lower (platform_system E) = ''darwin''
                              then Popen_args [''open'', ''-a'', cmd] else Popen_shell cmd)
                          (edith_speak (''Attempting to interface with local application: **''
                                          @ app_name @ ''**.'') st))
           in case popen_raises E (tick st) of
                None \<Rightarrow> edith_speak (''Affirmative. Opening '' @ app_name @ ''.'') st2
              | Some e \<Rightarrow>
                  edith_speak (''A critical error occurred while opening '' @ app_name
                                 @ '': '' @ e) st2))"
  by (auto simp: open_application_def lookup_program_def Let_def tick_effects
           split: option.splits dest: PROGRAMS_nonempty)


section \<open>The entries status and set of the command map\<close>

lemma lookup_status:
  "map_of (COMMANDS E) ''status''
     = Some (lambda0 (\<lambda>st. (PyNone, edith_speak (status_message E (tick st)) (next_tick st))))"
  by (simp add: COMMANDS_def)

lemma lookup_set:
  "map_of (COMMANDS E) ''set''
     = Some (lambda1 (\<lambda>arg st.
          if startswith arg ''task'' then (PyNone, set_reminder E (''set '' @ arg) st)
          else (PyCoroutine (edith_analyze E (''set '' @ arg)), st)))"
  by (simp add: COMMANDS_def)

lemma set_reminder_buy_milk:
  "set_reminder E ''set task buy milk'' st =
     edith_speak (''Task **'' @ [CHR 0x27] @ ''buy milk'' @ [CHR 0x27]
                    @ ''** successfully logged at '' @ now_strftime E (tick st) ''%Y-%m-%d %H:%M''
                    @ ''. Priority set to standard.'')
       ((next_tick st)\<lparr>reminders := reminders st
                           @ [(''buy milk'', now_strftime E (tick st) ''%Y-%m-%d %H:%M'')]\<rparr>)"
  by (simp add: set_reminder_def split_once_def strip_def isspace_def Let_def reminders_effects)

lemma cli_step_set_alone:
  "cli_step E ''set'' st = (Continue, edith_analyze E ''set '' st)"
  by (simp add: cli_step_def try_block_def split_once_def lookup_set invoke_lambda1
                iscoroutine_def await_def)

lemma set_reminder_no_task:
  "set_reminder E ''set task'' st = edith_speak MISSING_TASK_MESSAGE st"
  by (simp add: set_reminder_def split_once_def strip_def Let_def)

lemma cli_step_set_task_alone:
  "cli_step E ''set task'' st
     = (Continue, edith_speak MISSING_TASK_MESSAGE (edith_speak MISSING_TASK_MESSAGE st))"
  by (simp add: cli_step_def try_block_def split_once_def lookup_set invoke_lambda1
                iscoroutine_def set_reminder_no_task)


section \<open>How often a handler runs\<close>

text \<open>
  Claim C1. The claim is that a line whose first token is a registered name runs the
  handler bound to that name exactly once. For the line \<open>status\<close> the program does
  otherwise: the pass of the loop speaks the status message twice and draws two random
  efficiency figures, because the handler, a \<open><lambda>\<close>, is called once in the condition
  of the conditional expression and once more in the branch taken.
\<close>

theorem status_handler_runs_twice:
  "fst (cli_step E ''status'' st) = Continue
   \<and> trace (snd (cli_step E ''status'' st))
       = trace st @ [Spoke (status_message E (tick st)), Spoke (status_message E (Suc (tick st)))]"
  by (simp add: cli_step_def try_block_def split_once_def lookup_status invoke_lambda0_sync
                trace_effects tick_effects)


section \<open>Setting a task\<close>

text \<open>
  Claim C2. The claim is that the line \<open>set task buy milk\<close> adds exactly one record with
  task \<open>buy milk\<close> to the reminder store. The program adds two, with the timestamps of
  two successive readings of the clock, since the handler of \<open>set\<close> is a \<open><lambda>\<close>
  and runs twice.
\<close>

theorem set_task_logs_two_records:
  "reminders (snd (cli_step E ''set task buy milk'' st))
     = reminders st @ [(''buy milk'', now_strftime E (tick st) ''%Y-%m-%d %H:%M''),
                       (''buy milk'', now_strftime E (Suc (tick st)) ''%Y-%m-%d %H:%M'')]"
  by (simp add: cli_step_def try_block_def split_once_def lookup_set invoke_lambda1
                iscoroutine_def set_reminder_buy_milk reminders_effects tick_effects)


section \<open>The line set without a task\<close>

text \<open>
  Claim C3, as stated, fails: with the model loaded and answering, the line \<open>set\<close> makes
  the program call the generative model on the text \<open>set \<close> followed by the end-of-text
  token and speak its answer; the missing-parameter message is not spoken.
\<close>

theorem set_empty_argument_counterexample:
  "trace (snd (cli_step env0 ''set'' st0)) = [Generate [17], Spoke ''Hello there.'']
   \<and> Spoke MISSING_TASK_MESSAGE \<notin> set (trace (snd (cli_step env0 ''set'' st0)))"
proof -
  have r: "first_rule ''set '' = None"
    by (simp add: first_rule_def RULES_def rule_matches_def any_in_def lower_def lower_char_def)
  have t: "trace (snd (cli_step env0 ''set'' st0)) = [Generate [17], Spoke ''Hello there.'']"
    by (simp add: cli_step_set_alone edith_analyze_def first_rule_None [OF r] think_def
                  is_ready_def bot_input_ids_def Let_def st0_def env0_def trace_effects
                  next_tick_def emit_def edith_speak_def)
  show ?thesis
    unfolding t by (simp add: MISSING_TASK_MESSAGE_def)
qed

text \<open>
  Claim C3, amended. The line \<open>set\<close>, with an empty argument, does not end the loop and
  does not reach \<open>set_reminder\<close>: its argument does not start with \<open>task\<close>, so the
  handler hands the text \<open>set \<close> to \<open>edith_analyze\<close>, where no keyword rule matches, and
  the reminder store stays as it was. The missing-parameter message belongs to the line
  \<open>set task\<close>, a task command with no task text: there the loop goes on, the reminder
  store stays as it was, and the missing-parameter message is all that is spoken.
\<close>

theorem set_without_task_goes_to_resolver:
  "cli_step E ''set'' st = (Continue, edith_analyze E ''set '' st)
   \<and> first_rule ''set '' = None
   \<and> reminders (snd (cli_step E ''set'' st)) = reminders st
   \<and> fst (cli_step E ''set task'' st) = Continue
   \<and> reminders (snd (cli_step E ''set task'' st)) = reminders st
   \<and> set (drop (length (trace st)) (trace (snd (cli_step E ''set task'' st))))
       = {Spoke MISSING_TASK_MESSAGE}"
proof (intro conjI)
  show "cli_step E ''set'' st = (Continue, edith_analyze E ''set '' st)"
    by (rule cli_step_set_alone)
  show r: "first_rule ''set '' = None"
    by (simp add: first_rule_def RULES_def rule_matches_def any_in_def lower_def lower_char_def)
  show "reminders (snd (cli_step E ''set'' st)) = reminders st"
    by (auto simp: cli_step_set_alone edith_analyze_def first_rule_None [OF r] think_def Let_def
                   reminders_effects split: sum.splits)
  show "fst (cli_step E ''set task'' st) = Continue"
    by (simp add: cli_step_set_task_alone)
  show "reminders (snd (cli_step E ''set task'' st)) = reminders st"
    by (simp add: cli_step_set_task_alone reminders_effects)
  show "set (drop (length (trace st)) (trace (snd (cli_step E ''set task'' st))))
       = {Spoke MISSING_TASK_MESSAGE}"
    by (simp add: cli_step_set_task_alone trace_effects)
qed

theorem set_without_task_goes_to_resolver_witness:
  "cli_step env0 ''set'' st_offline = (Continue, edith_speak OFFLINE_MESSAGE st_offline)
   \<and> set (drop (length (trace st0)) (trace (snd (cli_step env0 ''set task'' st0))))
       = {Spoke MISSING_TASK_MESSAGE}"
proof -
  have "\<not> is_ready st_offline"
    by (simp add: is_ready_def st_offline_def st0_def)
  then have "edith_analyze env0 ''set '' st_offline = edith_speak OFFLINE_MESSAGE st_offline"
    using set_without_task_goes_to_resolver [of env0 st_offline]
    by (simp add: edith_analyze_def first_rule_None think_def)
  then show ?thesis
    using set_without_task_goes_to_resolver [of env0 st_offline]
      set_without_task_goes_to_resolver [of env0 st0]
    by simp
qed


section \<open>Unregistered lines\<close>

text \<open>
  Claim C4. A non-empty line whose first token is not a key of \<open>COMMANDS\<close> is handed
  whole to \<open>edith_analyze\<close>, the response resolver: the pass of the loop does exactly what
  \<open>edith_analyze\<close> does on the full line, not on the remainder after the first token, and
  the loop goes on.
\<close>

theorem unregistered_line_goes_to_resolver:
  assumes "command_line \<noteq> []" and "\<not> registered E (first_token command_line)"
  shows "cli_step E command_line st = (Continue, edith_analyze E command_line st)"
  by (simp add: cli_step_def try_block_unregistered [OF assms])

theorem unregistered_line_goes_to_resolver_witness:
  "''tell me a joke'' \<noteq> [] \<and> \<not> registered env0 (first_token ''tell me a joke'') \<and>
   cli_step env0 ''tell me a joke'' st0 = (Continue, edith_analyze env0 ''tell me a joke'' st0)"
proof -
  have a: "''tell me a joke'' \<noteq> []" by simp
  have b: "\<not> registered env0 (first_token ''tell me a joke'')"
    by (simp add: registered_def COMMANDS_def first_token_def)
  show ?thesis
    using a b unregistered_line_goes_to_resolver [OF a b, of st0] by simp
qed


section \<open>Priority of the keyword rules\<close>

text \<open>
  Claim C5. \<open>edith_analyze\<close> tries its keyword rules in the order of \<open>RULES\<close> and the
  first that matches wins: when rule \<open>k\<close> is the earliest rule with a keyword in the
  lower-cased input, the reply is the reply of rule \<open>k\<close>, and the state is left as it
  was, so \<open>think\<close> and with it the generative model are never called, whatever the
  surroundings \<open>E\<close> would have answered. When two rules \<open>i < j\<close> both match, the reply is
  that of the earliest matching rule, which is \<open>i\<close> or a rule before it, and never that of
  \<open>j\<close>. The input \<open>how are you\<close> gets the canned status reply.
\<close>

theorem rule_priority_first_match:
  "(earliest_match u k \<longrightarrow>
      analyze_response E u st = (snd (RULES ! k), st)
      \<and> edith_analyze E u st = edith_speak (snd (RULES ! k)) st)
   \<and> (i < j \<and> j < length RULES \<and> rule_matches u (RULES ! i) \<and> rule_matches u (RULES ! j) \<longrightarrow>
        (\<exists>n\<le>i. earliest_match u n \<and> fst (analyze_response E u st) = snd (RULES ! n))
        \<and> fst (analyze_response E u st) \<noteq> snd (RULES ! j))
   \<and> analyze_response E ''how are you'' st = (REPLY_STATUS, st)"
proof (intro conjI impI)
  assume e: "earliest_match u k"
  show "analyze_response E u st = (snd (RULES ! k), st)"
    by (rule first_rule_Some [OF earliest_match_first_rule [OF e]])
  then show "edith_analyze E u st = edith_speak (snd (RULES ! k)) st"
    by (simp add: edith_analyze_def)
next
  assume a: "i < j \<and> j < length RULES \<and> rule_matches u (RULES ! i) \<and> rule_matches u (RULES ! j)"
  then obtain n where n: "n \<le> i" "earliest_match u n"
    using match_has_earliest [of i u] by auto
  have r: "fst (analyze_response E u st) = snd (RULES ! n)"
    by (simp add: first_rule_Some [OF earliest_match_first_rule [OF n(2)]])
  show "\<exists>n\<le>i. earliest_match u n \<and> fst (analyze_response E u st) = snd (RULES ! n)"
    using n r by blast
  have d: "\<forall>a<length RULES. \<forall>b<length RULES. a \<noteq> b \<longrightarrow> snd (RULES ! a) \<noteq> snd (RULES ! b)"
    using replies_distinct by (simp add: distinct_conv_nth)
  have "n < j" "j < length RULES" using a n(1) by auto
  then have "snd (RULES ! n) \<noteq> snd (RULES ! j)"
    using d by auto
  then show "fst (analyze_response E u st) \<noteq> snd (RULES ! j)"
    using r by simp
next
  have "first_rule ''how are you'' = Some (RULES ! 0)"
    by (simp add: first_rule_def RULES_def rule_matches_def any_in_def lower_def lower_char_def)
  then show "analyze_response E ''how are you'' st = (REPLY_STATUS, st)"
    by (simp add: first_rule_Some RULES_def)
qed

theorem rule_priority_first_match_witness:
  "earliest_match ''Motivate me: how are you?'' 0
   \<and> (0::nat) < 4 \<and> 4 < length RULES
   \<and> rule_matches ''Motivate me: how are you?'' (RULES ! 0)
   \<and> rule_matches ''Motivate me: how are you?'' (RULES ! 4)
   \<and> analyze_response env_failing ''Motivate me: how are you?'' st0 = (REPLY_STATUS, st0)
   \<and> fst (analyze_response env_failing ''Motivate me: how are you?'' st0) \<noteq> REPLY_INSPIRE"
proof -
  have m0: "rule_matches ''Motivate me: how are you?'' (RULES ! 0)"
    by (simp add: RULES_def rule_matches_def any_in_def lower_def lower_char_def)
  have m4: "rule_matches ''Motivate me: how are you?'' (RULES ! 4)"
    by (simp add: RULES_def rule_matches_def any_in_def lower_def lower_char_def)
  have e: "earliest_match ''Motivate me: how are you?'' 0"
    using m0 by (simp add: earliest_match_def length_RULES)
  have r0: "snd (RULES ! 0) = REPLY_STATUS" and r4: "snd (RULES ! 4) = REPLY_INSPIRE"
    by (simp_all add: RULES_def)
  have ne: "REPLY_STATUS \<noteq> REPLY_INSPIRE"
    by (simp add: REPLY_STATUS_def REPLY_INSPIRE_def)
  show ?thesis
    using m0 m4 e ne
      rule_priority_first_match [of "''Motivate me: how are you?''" 0 env_failing st0 0 4]
    by (simp add: length_RULES r0 r4)
qed


section \<open>Error reports of the generative path\<close>

text \<open>
  Claim C6. When no keyword rule matches, \<open>edith_analyze\<close> returns normally in both
  failure cases and speaks one of two different messages: the fixed offline message when
  the model or the tokenizer was not loaded, and the inference-error message followed by
  the text of the exception when \<open>model.generate\<close> raises. The two messages differ
  whatever the text of the exception is.
\<close>

theorem generative_path_error_reports:
  assumes "first_rule u = None"
  shows "(\<not> is_ready st \<longrightarrow>
            analyze_response E u st = (OFFLINE_MESSAGE, st)
            \<and> edith_analyze E u st = edith_speak OFFLINE_MESSAGE st)
       \<and> (is_ready st \<and> model_generate E (tick st) (bot_input_ids E u st) = Inl e \<longrightarrow>
            fst (analyze_response E u st) = INFERENCE_ERROR e
            \<and> edith_analyze E u st =
                edith_speak (INFERENCE_ERROR e)
                  (print (''Error in edith_analyze: '' @ e)
                     (next_tick (emit (Generate (bot_input_ids E u st)) st))))
       \<and> OFFLINE_MESSAGE \<noteq> INFERENCE_ERROR e"
  by (auto simp: first_rule_None [OF assms] edith_analyze_def failed_generation_think
                 offline_differs think_def)

theorem generative_path_error_reports_witness:
  "first_rule ''Tell me a joke'' = None \<and> \<not> is_ready st_offline
   \<and> edith_analyze env0 ''Tell me a joke'' st_offline = edith_speak OFFLINE_MESSAGE st_offline
   \<and> is_ready st0
   \<and> model_generate env_failing (tick st0) (bot_input_ids env_failing ''Tell me a joke'' st0)
       = Inl ''CUDA out of memory''
   \<and> fst (analyze_response env_failing ''Tell me a joke'' st0)
       = INFERENCE_ERROR ''CUDA out of memory''
   \<and> OFFLINE_MESSAGE \<noteq> INFERENCE_ERROR ''CUDA out of memory''"
proof -
  have a: "first_rule ''Tell me a joke'' = None"
    by (simp add: first_rule_def RULES_def rule_matches_def any_in_def lower_def lower_char_def)
  have b: "\<not> is_ready st_offline"
    by (simp add: is_ready_def st_offline_def st0_def)
  have c: "is_ready st0"
    by (simp add: is_ready_def st0_def)
  have d: "model_generate env_failing (tick st0) (bot_input_ids env_failing ''Tell me a joke'' st0)
             = Inl ''CUDA out of memory''"
    by (simp add: env_failing_def env0_def)
  show ?thesis
    using a b c d
      generative_path_error_reports [OF a, of st_offline env0 "''CUDA out of memory''"]
      generative_path_error_reports [OF a, of st0 env_failing "''CUDA out of memory''"]
    by simp
qed


section \<open>Opening a target\<close>

text \<open>
  Claim C7. \<open>open_target\<close> decides by one test. A target with a dot in it is a URL: the
  browser is opened on the target itself when it starts with \<open>http\<close>, and on the target
  with \<open>https://\<close> put in front otherwise. A target without a dot is an application
  name and is looked up in the table of the operating system: where the table has no
  entry the missing configuration is reported, and where it has one that command is
  launched. The line \<open>open example.com\<close> opens the browser on \<open>https://example.com\<close>.
\<close>

theorem open_target_disambiguation:
  "(CHR ''.'' \<in> set target \<longrightarrow>
      open_target E target st =
        emit (Browser_open (if startswith target ''http'' then target else ''https://'' @ target))
          (edith_speak (''Executing web traversal to **'' @ target @ ''**.'') st))
   \<and> (CHR ''.'' \<notin> set target \<longrightarrow>
        open_target E target st = open_application E target st
        \<and> (case lookup_program E target of
             None \<Rightarrow> open_target E target st = edith_speak (NO_CONFIGURATION target) st
           | Some cmd \<Rightarrow>
               (if lower (platform_system E) = ''darwin''
                then Popen_args [''open'', ''-a'', cmd] else Popen_shell cmd)
                 \<in> set (trace (open_target E target st))))
   \<and> trace (snd (cli_step E ''open example.com'' st))
       = trace st @ [Spoke ''Executing web traversal to **example.com**.'',
                     Browser_open ''https://example.com'']"
proof (intro conjI impI)
  assume "CHR ''.'' \<in> set target"
  then show "open_target E target st =
        emit (Browser_open (if startswith target ''http'' then target else ''https://'' @ target))
          (edith_speak (''Executing web traversal to **'' @ target @ ''**.'') st)"
    by (simp add: open_target_def contains_char open_website_def Let_def)
next
  assume n: "CHR ''.'' \<notin> set target"
  then show eq: "open_target E target st = open_application E target st"
    by (simp add: open_target_def contains_char)
  show "case lookup_program E target of
             None \<Rightarrow> open_target E target st = edith_speak (NO_CONFIGURATION target) st
           | Some cmd \<Rightarrow>
               (if lower (platform_system E) = ''darwin''
                then Popen_args [''open'', ''-a'', cmd] else Popen_shell cmd)
                 \<in> set (trace (open_target E target st))"
    unfolding eq open_application_lookup
    by (simp add: Let_def trace_effects split: option.splits)
next
  have "cli_step E ''open example.com'' st = (Continue, open_target E ''example.com'' st)"
    by (simp add: cli_step_def try_block_def split_once_def COMMANDS_def invoke_def1)
  then show "trace (snd (cli_step E ''open example.com'' st))
       = trace st @ [Spoke ''Executing web traversal to **example.com**.'',
                     Browser_open ''https://example.com'']"
    by (simp add: open_target_def open_website_def trace_effects)
qed

theorem open_target_disambiguation_witness:
  "CHR ''.'' \<in> set ''docs.python.org''
   \<and> trace (open_target env0 ''docs.python.org'' st0)
       = [Spoke ''Executing web traversal to **docs.python.org**.'',
          Browser_open ''https://docs.python.org'']
   \<and> CHR ''.'' \<notin> set ''Calculator''
   \<and> lookup_program env0 ''Calculator'' = Some ''gnome-calculator''
   \<and> Popen_shell ''gnome-calculator'' \<in> set (trace (open_target env0 ''Calculator'' st0))
   \<and> lookup_program env0 ''notepad'' = None
   \<and> open_target env0 ''notepad'' st0 = edith_speak (NO_CONFIGURATION ''notepad'') st0"
proof -
  have a: "CHR ''.'' \<in> set ''docs.python.org''" by simp
  have b: "CHR ''.'' \<notin> set ''Calculator''" by simp
  have c: "lookup_program env0 ''Calculator'' = Some ''gnome-calculator''"
    by (simp add: lookup_program_def PROGRAMS_def env0_def lower_def lower_char_def strip_def
                  isspace_def)
  have d: "CHR ''.'' \<notin> set ''notepad''" by simp
  have e: "lookup_program env0 ''notepad'' = None"
    by (simp add: lookup_program_def PROGRAMS_def env0_def lower_def lower_char_def strip_def
                  isspace_def)
  have f: "lower (platform_system env0) \<noteq> ''darwin''"
    by (simp add: env0_def lower_def lower_char_def)
  have p1: "trace (open_target env0 ''docs.python.org'' st0)
       = [Spoke ''Executing web traversal to **docs.python.org**.'',
          Browser_open ''https://docs.python.org'']"
    using a open_target_disambiguation [of "''docs.python.org''" env0 st0]
    by (simp add: trace_effects st0_def)
  have "case lookup_program env0 ''Calculator'' of
          None \<Rightarrow> open_target env0 ''Calculator'' st0
                    = edith_speak (NO_CONFIGURATION ''Calculator'') st0
        | Some cmd \<Rightarrow>
            (if lower (platform_system env0) = ''darwin''
             then Popen_args [''open'', ''-a'', cmd] else Popen_shell cmd)
              \<in> set (trace (open_target env0 ''Calculator'' st0))"
    using b open_target_disambiguation [of "''Calculator''" env0 st0] by blast
  then have p2: "Popen_shell ''gnome-calculator''
                   \<in> set (trace (open_target env0 ''Calculator'' st0))"
    using c f by simp
  have "case lookup_program env0 ''notepad'' of
          None \<Rightarrow> open_target env0 ''notepad'' st0
                    = edith_speak (NO_CONFIGURATION ''notepad'') st0
        | Some cmd \<Rightarrow>
            (if lower (platform_system env0) = ''darwin''
             then Popen_args [''open'', ''-a'', cmd] else Popen_shell cmd)
              \<in> set (trace (open_target env0 ''notepad'' st0))"
    using d open_target_disambiguation [of "''notepad''" env0 st0] by blast
  then have p3: "open_target env0 ''notepad'' st0 = edith_speak (NO_CONFIGURATION ''notepad'') st0"
    using e by simp
  show ?thesis
    by (intro conjI a b c e p1 p2 p3)
qed


section \<open>Terminal commands\<close>

text \<open>
  Claim C8. When the line obtained from the input device has \<open>exit\<close>, \<open>quit\<close> or
  \<open>shutdown\<close> as its first token, the pass of the loop ends in \<open>break\<close>: the loop returns
  with the state the handler left, and every later answer of the input device is left
  unasked, so no further line is acquired and nothing more is dispatched.
\<close>

theorem terminal_command_stops_loop:
  assumes "fst (listen_for_command h st) = Inr command_line"
      and "first_token command_line \<in> {''exit'', ''quit'', ''shutdown''}"
  shows "fst (cli_step E command_line (snd (listen_for_command h st))) = Break \<and>
         cli_loop E st (h # hs)
           = (Broke, snd (cli_step E command_line (snd (listen_for_command h st))), hs)"
  using assms(1) cli_step_terminal [OF assms(2)]
  by (cases "listen_for_command h st") auto

theorem terminal_command_stops_loop_witness:
  "fst (listen_for_command (Typed (Some ''Exit'')) st0) = Inr ''exit'' \<and>
   first_token ''exit'' \<in> {''exit'', ''quit'', ''shutdown''} \<and>
   cli_loop env0 st0 [Typed (Some ''Exit''), Typed (Some ''time'')]
     = (Broke, snd (cli_step env0 ''exit'' (snd (listen_for_command (Typed (Some ''Exit'')) st0))),
        [Typed (Some ''time'')])"
proof -
  have a: "fst (listen_for_command (Typed (Some ''Exit'')) st0) = Inr ''exit''"
    by (simp add: listen_for_command_def strip_def lower_def lower_char_def isspace_def)
  have b: "first_token ''exit'' \<in> {''exit'', ''quit'', ''shutdown''}"
    by (simp add: first_token_def)
  show ?thesis
    using a b terminal_command_stops_loop [OF a b, of env0 "[Typed (Some ''time'')]"] by simp
qed


section \<open>Empty lines\<close>

text \<open>
  Claim C9. On an empty line the pass of the loop changes nothing: the state, and with it
  the record of events, is the one before, so no handler and no resolver ran; and the
  loop goes on to the next answer of the input device.
\<close>

theorem empty_line_no_dispatch:
  "cli_step E [] st = (Continue, st) \<and>
   (fst (listen_for_command h st) = Inr [] \<longrightarrow>
      cli_loop E st (h # hs) = cli_loop E (snd (listen_for_command h st)) hs)"
  by (cases "listen_for_command h st") (auto simp: cli_step_def try_block_def)

theorem empty_line_no_dispatch_witness:
  "fst (listen_for_command (Listened Wait_timeout) st0) = Inr [] \<and>
   cli_loop env0 st0 [Listened Wait_timeout, Typed (Some ''help'')]
     = cli_loop env0 (snd (listen_for_command (Listened Wait_timeout) st0)) [Typed (Some ''help'')]"
proof -
  have a: "fst (listen_for_command (Listened Wait_timeout) st0) = Inr []"
    by (simp add: listen_for_command_def)
  show ?thesis
    using a empty_line_no_dispatch [of env0 st0 "Listened Wait_timeout" "[Typed (Some ''help'')]"]
    by simp
qed


section \<open>The history after a failed generation\<close>

text \<open>
  Claim C10. When \<open>model.generate\<close> raises inside \<open>think\<close>, \<open>chat_history_ids\<close> is the
  same after \<open>think\<close>, and after \<open>edith_analyze\<close>, as before. Conversely, whenever
  \<open>think\<close> changes \<open>chat_history_ids\<close>, the generation has returned a token sequence
  and that sequence is the new history.
\<close>

theorem failed_generation_keeps_history:
  "(is_ready st \<and> model_generate E (tick st) (bot_input_ids E u st) = Inl e \<longrightarrow>
      fst (think E u st) = Inl e
      \<and> chat_history_ids (snd (think E u st)) = chat_history_ids st
      \<and> chat_history_ids (edith_analyze E u st) = chat_history_ids st)
   \<and> (chat_history_ids (snd (think E u st)) \<noteq> chat_history_ids st \<longrightarrow>
        (\<exists>out. is_ready st \<and> model_generate E (tick st) (bot_input_ids E u st) = Inr out
               \<and> chat_history_ids (snd (think E u st)) = Some out))"
proof (intro conjI impI)
  assume a: "is_ready st \<and> model_generate E (tick st) (bot_input_ids E u st) = Inl e"
  then have t: "think E u st = (Inl e, next_tick (emit (Generate (bot_input_ids E u st)) st))"
    by (simp add: failed_generation_think)
  show "fst (think E u st) = Inl e" by (simp add: t)
  show "chat_history_ids (snd (think E u st)) = chat_history_ids st"
    by (simp add: t chat_history_ids_effects)
  show "chat_history_ids (edith_analyze E u st) = chat_history_ids st"
  proof (cases "first_rule u")
    case None
    then show ?thesis
      by (simp add: edith_analyze_def first_rule_None t chat_history_ids_effects)
  next
    case (Some r)
    then show ?thesis
      by (simp add: edith_analyze_def first_rule_Some chat_history_ids_effects)
  qed
next
  assume "chat_history_ids (snd (think E u st)) \<noteq> chat_history_ids st"
  then show "\<exists>out. is_ready st \<and> model_generate E (tick st) (bot_input_ids E u st) = Inr out
               \<and> chat_history_ids (snd (think E u st)) = Some out"
    by (auto simp: think_def Let_def chat_history_ids_effects split: if_splits sum.splits)
qed

theorem failed_generation_keeps_history_witness:
  "is_ready st0
   \<and> model_generate env_failing (tick st0) (bot_input_ids env_failing ''Tell me a joke'' st0)
       = Inl ''CUDA out of memory''
   \<and> chat_history_ids (snd (think env_failing ''Tell me a joke'' st0)) = chat_history_ids st0
   \<and> chat_history_ids (snd (think env0 ''Tell me a joke'' st0)) \<noteq> chat_history_ids st0
   \<and> (\<exists>out. model_generate env0 (tick st0) (bot_input_ids env0 ''Tell me a joke'' st0) = Inr out
        \<and> chat_history_ids (snd (think env0 ''Tell me a joke'' st0)) = Some out)"
proof -
  have c: "is_ready st0"
    by (simp add: is_ready_def st0_def)
  have d: "model_generate env_failing (tick st0) (bot_input_ids env_failing ''Tell me a joke'' st0)
             = Inl ''CUDA out of memory''"
    by (simp add: env_failing_def env0_def)
  have e: "chat_history_ids (snd (think env0 ''Tell me a joke'' st0)) \<noteq> chat_history_ids st0"
    by (simp add: think_def Let_def is_ready_def st0_def env0_def bot_input_ids_def
                  next_tick_def emit_def)
  show ?thesis
    using c d e
      failed_generation_keeps_history [of st0 env_failing "''Tell me a joke''" "''CUDA out of memory''"]
      failed_generation_keeps_history [of st0 env0 "''Tell me a joke''" "''x''"]
    by simp
qed

end
